theory Spec2Isabelle
  imports Main "HOL-Library.Sublist"
begin

section \<open>The UPDATE statement builder of the ORM\<close>

text \<open>
  A shallow embedding of \<^verbatim>\<open>src/lib/core/models/queries/update.model.ts\<close>: the class
  \<^verbatim>\<open>QueryUpdate\<close> with its constructor, \<^verbatim>\<open>where\<close> and \<^verbatim>\<open>build\<close>, and the factory
  \<^verbatim>\<open>Update\<close>. The builder is a mutable object; here every method takes the builder
  and returns the updated one. An exception is the left summand of a sum type.
\<close>

subsection \<open>Values\<close>

text \<open>
  The scalar values a model field or a bound parameter can hold. JavaScript numbers are
  modelled as integers; \<open>NaN\<close> and fractions play no part in the builder.
\<close>

datatype val = JUndefined | JNull | JBool bool | JNum int | JStr string

text \<open>JavaScript truthiness, as the conditions \<^verbatim>\<open>if (x)\<close> and \<^verbatim>\<open>a || b\<close> read a value.\<close>

fun truthy :: "val \<Rightarrow> bool" where
  "truthy JUndefined = False"
| "truthy JNull = False"
| "truthy (JBool b) = b"
| "truthy (JNum n) = (n \<noteq> 0)"
| "truthy (JStr s) = (s \<noteq> [])"

text \<open>\<^verbatim>\<open>Array.prototype.join\<close> on an array of strings.\<close>

fun join :: "string \<Rightarrow> string list \<Rightarrow> string" where
  "join sep [] = []"
| "join sep [x] = x"
| "join sep (x # y # ys) = x @ sep @ join sep (y # ys)"

subsection \<open>Model metadata and model instances\<close>

text \<open>
  Modelled from the spec: the metadata \<^verbatim>\<open>getModel\<close> returns (the declarations of the
  table and column classes are not among the sources): a table has a name and an ordered
  column list, a column has a name, the name of the field that holds its value, and a
  primary-key flag.
\<close>

record db_column =
  name :: string
  field :: string
  primaryKey :: bool

record db_table =
  name :: string
  columnList :: "db_column list"

text \<open>
  Modelled from the spec: the model instance (the declaration of \<^verbatim>\<open>DbHelperModel\<close> is not
  among the sources). \<open>rowid\<close> is the property \<^verbatim>\<open>__rowid\<close>, \<open>partialWithProjection\<close> the
  property \<^verbatim>\<open>__partialWithProjection\<close> (\<open>None\<close> when it is not set, otherwise the
  array of column names), and \<open>field_values\<close> the declared fields of the instance, which hold
  scalars.
\<close>

record db_helper_model =
  rowid :: val
  partialWithProjection :: "string list option"
  field_values :: "string \<rightharpoonup> val"

text \<open>The read \<^verbatim>\<open>(this.model as {[index:string]: any})[column.field]\<close>: a field the
  instance does not have reads as \<^verbatim>\<open>undefined\<close>.\<close>

definition get_field :: "db_helper_model \<Rightarrow> string \<Rightarrow> val" where
  "get_field m f = (case field_values m f of None \<Rightarrow> JUndefined | Some v \<Rightarrow> v)"

subsection \<open>Clauses, clause groups and the query\<close>

text \<open>
  Modelled from the spec: \<^verbatim>\<open>DbQuery\<close> (its source file is not among the sources). It holds
  the table, the statement type, the text accumulated so far and the ordered parameters;
  a new query has empty text and no parameters; \<^verbatim>\<open>append(other)\<close> concatenates the
  other query's text to the text and its parameters to the parameters.
\<close>

record db_query =
  table :: string
  type :: string
  query :: string
  params :: "val list"

definition new_DbQuery :: db_query where
  "new_DbQuery = \<lparr>table = [], type = [], query = [], params = []\<rparr>"

definition DbQuery_append :: "db_query \<Rightarrow> db_query \<Rightarrow> db_query" where
  "DbQuery_append q other = q\<lparr>query := query q @ query other, params := params q @ params other\<rparr>"

text \<open>
  Modelled from the spec: \<^verbatim>\<open>Clause\<close> (its source file is not among the sources). A clause
  has a key, an operator (equality by default), a value (a scalar or a list) and the
  connector to the previous clause (AND by default).
\<close>

datatype connector = AND | OR

datatype clause_value = Scalar val | ListValue "val list"

record clause =
  key :: string
  operator :: string
  clause_value :: clause_value
  connector :: connector

definition new_Clause :: clause where
  "new_Clause = \<lparr>key = [], operator = ''='', clause_value = Scalar JUndefined, connector = AND\<rparr>"

text \<open>
  Modelled from the spec: \<^verbatim>\<open>ClauseGroup\<close> (its source file is not among the sources): an
  ordered sequence of entries, each a clause or a nested group, each with its connector to
  the previous entry.
\<close>

datatype entry = ClauseEntry clause | GroupEntry connector "entry list"

text \<open>
  Modelled from the spec: the shapes \<^verbatim>\<open>add\<close> accepts (the parameter type
  \<^verbatim>\<open>Clause|Clause[]|ClauseGroup|Object\<close> of \<^verbatim>\<open>where\<close>): a clause, an array of clauses, a
  group, or a key-to-value mapping read as equality clauses joined by AND, in the order
  of its keys. A group is added as one nested entry, never flattened.
\<close>

datatype where_input =
  OneClause clause
| ClauseArray "clause list"
| Group "entry list"
| Mapping "(string \<times> clause_value) list"

fun ClauseGroup_add :: "entry list \<Rightarrow> where_input \<Rightarrow> entry list" where
  "ClauseGroup_add es (OneClause c) = es @ [ClauseEntry c]"
| "ClauseGroup_add es (ClauseArray cs) = es @ map ClauseEntry cs"
| "ClauseGroup_add es (Group g) = es @ [GroupEntry AND g]"
| "ClauseGroup_add es (Mapping kvs) =
     es @ map (\<lambda>(k, v). ClauseEntry (new_Clause\<lparr>key := k, clause_value := v\<rparr>)) kvs"

text \<open>
  Modelled from the spec: the rendering. A clause renders as
  \<^verbatim>\<open><connector> <key> <operator> (?)\<close>, a list-valued clause as \<^verbatim>\<open><key> IN (?, ?, ...)\<close>
  with one placeholder per element, a nested group as \<^verbatim>\<open>( <inner> )\<close>; the first entry of
  a group omits its connector; the parameters are the bound values in the order of the
  placeholders. Every token is preceded by one space, so that the text after the keyword
  \<^verbatim>\<open>WHERE\<close> reads \<^verbatim>\<open> id = (?)\<close> as in the spec's example.
\<close>

fun connector_text :: "connector \<Rightarrow> string" where
  "connector_text AND = ''AND''"
| "connector_text OR = ''OR''"

definition Clause_build :: "clause \<Rightarrow> db_query" where
  "Clause_build c =
     (case clause_value c of
        Scalar v \<Rightarrow>
          new_DbQuery\<lparr>query := key c @ '' '' @ operator c @ '' (?)'', params := [v]\<rparr>
      | ListValue vs \<Rightarrow>
          new_DbQuery\<lparr>query := key c @ '' IN ('' @ join '', '' (map (\<lambda>v. ''?'') vs) @ '')'',
                      params := vs\<rparr>)"

fun entry_connector :: "entry \<Rightarrow> connector" where
  "entry_connector (ClauseEntry c) = connector c"
| "entry_connector (GroupEntry k g) = k"

fun entry_build :: "entry \<Rightarrow> db_query"
  and entries_build :: "bool \<Rightarrow> entry list \<Rightarrow> db_query" where
  "entry_build (ClauseEntry c) = Clause_build c"
| "entry_build (GroupEntry k g) =
     (let inner = entries_build True g
      in new_DbQuery\<lparr>query := ''('' @ query inner @ '' )'', params := params inner\<rparr>)"
| "entries_build first [] = new_DbQuery"
| "entries_build first (e # es) =
     DbQuery_append
       (DbQuery_append
          (new_DbQuery\<lparr>query := (if first then [] else '' '' @ connector_text (entry_connector e)) @ '' ''\<rparr>)
          (entry_build e))
       (entries_build False es)"

definition ClauseGroup_build :: "entry list \<Rightarrow> db_query" where
  "ClauseGroup_build es = entries_build True es"

subsection \<open>The builder\<close>

text \<open>The class \<^verbatim>\<open>QueryUpdate\<close>: the model, the constructor's \<^verbatim>\<open>partial\<close> argument and the
  where clauses, \<open>None\<close> until the first call of \<^verbatim>\<open>where\<close>. The private field \<^verbatim>\<open>type\<close> is
  the constant \<^verbatim>\<open>'UPDATE'\<close>.\<close>

record query_update =
  model :: db_helper_model
  partial :: bool
  whereClauses :: "entry list option"

definition QueryUpdate_type :: string where
  "QueryUpdate_type = ''UPDATE''"

definition QueryUpdate :: "db_helper_model \<Rightarrow> bool \<Rightarrow> query_update" where
  "QueryUpdate m p = \<lparr>model = m, partial = p, whereClauses = None\<rparr>"

definition Update :: "db_helper_model \<Rightarrow> bool \<Rightarrow> query_update" where
  "Update m p = QueryUpdate m p"

text \<open>The method \<^verbatim>\<open>where\<close> (a keyword of Isabelle, hence the longer name): it creates the
  group when there is none and adds the clauses to it.\<close>

definition update_where :: "query_update \<Rightarrow> where_input \<Rightarrow> query_update" where
  "update_where b clauses =
     (let b1 = (case whereClauses b of None \<Rightarrow> b\<lparr>whereClauses := Some []\<rparr> | Some g \<Rightarrow> b)
      in b1\<lparr>whereClauses := map_option (\<lambda>g. ClauseGroup_add g clauses) (whereClauses b1)\<rparr>)"

text \<open>The loop of lines 88 to 95: one clause for each column flagged primary key.\<close>

fun add_primary_keys :: "db_column list \<Rightarrow> query_update \<Rightarrow> query_update" where
  "add_primary_keys [] b = b"
| "add_primary_keys (column # columns) b =
     (if primaryKey column
      then add_primary_keys columns
             (update_where b
                (OneClause (new_Clause\<lparr>key := db_column.name column,
                                        clause_value := Scalar (get_field (model b) (field column))\<rparr>)))
      else add_primary_keys columns b)"

text \<open>The loop of lines 101 to 111, with its two accumulators.\<close>

fun set_columns ::
  "db_helper_model \<Rightarrow> db_column list \<Rightarrow> string list \<Rightarrow> val list \<Rightarrow> string list \<times> val list" where
  "set_columns m [] columnsToUpdate values = (columnsToUpdate, values)"
| "set_columns m (column # columns) columnsToUpdate values =
     (case partialWithProjection m of
        Some projection \<Rightarrow>
          if db_column.name column \<in> set projection \<or> truthy (get_field m (field column))
          then set_columns m columns (columnsToUpdate @ [db_column.name column])
                 (values @ [get_field m (field column)])
          else set_columns m columns columnsToUpdate values
      | None \<Rightarrow>
          set_columns m columns (columnsToUpdate @ [db_column.name column])
            (values @ [get_field m (field column)]))"

text \<open>The method \<^verbatim>\<open>build\<close>. \<open>getModel\<close> is \<^verbatim>\<open>ModelManager.getInstance().getModel\<close>, a
  parameter: it returns the table of the model or fails. The result is the query and the
  builder as \<^verbatim>\<open>build\<close> leaves it.\<close>

definition build ::
  "(db_helper_model \<Rightarrow> 'e + db_table) \<Rightarrow> query_update \<Rightarrow> 'e + (db_query \<times> query_update)" where
  "build getModel b =
     (case getModel (model b) of
        Inl e \<Rightarrow> Inl e
      | Inr tbl \<Rightarrow>
          let dbQuery = new_DbQuery;
              dbQuery = dbQuery\<lparr>table := db_table.name tbl\<rparr>;
              dbQuery = dbQuery\<lparr>type := QueryUpdate_type\<rparr>;
              b = (if truthy (rowid (model b))
                   then update_where b
                          (OneClause (new_Clause\<lparr>key := ''rowid'',
                                                  clause_value := Scalar (rowid (model b))\<rparr>))
                   else add_primary_keys (columnList tbl) b);
              dbQuery = dbQuery\<lparr>query := query dbQuery @ QueryUpdate_type @ '' '' @ table dbQuery\<rparr>;
              (columnsToUpdate, values) = set_columns (model b) (columnList tbl) [] [];
              dbQuery = dbQuery\<lparr>query := query dbQuery @ '' SET ''
                                   @ join '' = (?), '' columnsToUpdate @ '' = (?) ''\<rparr>;
              dbQuery = dbQuery\<lparr>params := params dbQuery @ values\<rparr>;
              dbQuery = (case whereClauses b of
                           None \<Rightarrow> dbQuery
                         | Some g \<Rightarrow>
                             DbQuery_append (dbQuery\<lparr>query := query dbQuery @ '' WHERE''\<rparr>)
                               (ClauseGroup_build g))
          in Inr (dbQuery, b))"

subsection \<open>Vocabulary of the statements\<close>

text \<open>
  The notions the statements below are written in: which columns the SET list holds, the
  text up to the end of the SET list and its parameters, the columns flagged primary
  key, a clause with the defaults of a new clause, the identity clauses \<^verbatim>\<open>build\<close>
  synthesizes and their parameters, the builder as \<^verbatim>\<open>build\<close> leaves it, and the count of
  placeholders of a text (every placeholder holds one question mark).
\<close>

definition included :: "db_helper_model \<Rightarrow> db_column \<Rightarrow> bool" where
  "included m c =
     (case partialWithProjection m of
        None \<Rightarrow> True
      | Some projection \<Rightarrow> db_column.name c \<in> set projection \<or> truthy (get_field m (field c)))"

definition set_list :: "db_helper_model \<Rightarrow> db_table \<Rightarrow> db_column list" where
  "set_list m t = filter (included m) (columnList t)"

definition set_text :: "db_helper_model \<Rightarrow> db_table \<Rightarrow> string" where
  "set_text m t = ''UPDATE '' @ db_table.name t @ '' SET ''
     @ join '' = (?), '' (map db_column.name (set_list m t)) @ '' = (?) ''"

definition set_params :: "db_helper_model \<Rightarrow> db_table \<Rightarrow> val list" where
  "set_params m t = map (\<lambda>c. get_field m (field c)) (set_list m t)"

definition primary_keys :: "db_table \<Rightarrow> db_column list" where
  "primary_keys t = filter primaryKey (columnList t)"

definition equality_clause :: "string \<Rightarrow> val \<Rightarrow> clause" where
  "equality_clause k v = \<lparr>key = k, operator = ''='', clause_value = Scalar v, connector = AND\<rparr>"

definition identity_clauses :: "db_helper_model \<Rightarrow> db_table \<Rightarrow> clause list" where
  "identity_clauses m t =
     (if truthy (rowid m) then [equality_clause ''rowid'' (rowid m)]
      else map (\<lambda>c. equality_clause (db_column.name c) (get_field m (field c))) (primary_keys t))"

definition identity_params :: "db_helper_model \<Rightarrow> db_table \<Rightarrow> val list" where
  "identity_params m t =
     (if truthy (rowid m) then [rowid m]
      else map (\<lambda>c. get_field m (field c)) (primary_keys t))"

definition after_build :: "query_update \<Rightarrow> db_table \<Rightarrow> query_update" where
  "after_build b t =
     (if identity_clauses (model b) t = [] then b
      else b\<lparr>whereClauses :=
              Some ((case whereClauses b of None \<Rightarrow> [] | Some g \<Rightarrow> g)
                    @ map ClauseEntry (identity_clauses (model b) t))\<rparr>)"

text \<open>Two calls of \<^verbatim>\<open>build\<close> in succession on one builder: the second call sees the
  builder as the first call left it. The result is the two queries.\<close>

definition build_twice ::
  "(db_helper_model \<Rightarrow> 'e + db_table) \<Rightarrow> query_update \<Rightarrow> 'e + (db_query \<times> db_query)" where
  "build_twice getModel b =
     (case build getModel b of
        Inl e \<Rightarrow> Inl e
      | Inr (q1, b1) \<Rightarrow>
          (case build getModel b1 of
             Inl e \<Rightarrow> Inl e
           | Inr (q2, b2) \<Rightarrow> Inr (q1, q2)))"

definition placeholders :: "string \<Rightarrow> nat" where
  "placeholders s = count_list s (CHR ''?'')"

text \<open>An entry is plain when no key and no operator in it holds a question mark.\<close>

fun plain_entry :: "entry \<Rightarrow> bool"
  and plain_entries :: "entry list \<Rightarrow> bool" where
  "plain_entry (ClauseEntry c) = (CHR ''?'' \<notin> set (key c) \<and> CHR ''?'' \<notin> set (operator c))"
| "plain_entry (GroupEntry k g) = plain_entries g"
| "plain_entries [] = True"
| "plain_entries (e # es) = (plain_entry e \<and> plain_entries es)"

subsection \<open>Example inputs\<close>

definition todo_table :: db_table where
  "todo_table = \<lparr>db_table.name = ''todo'', columnList =
     [\<lparr>db_column.name = ''title'', field = ''title'', primaryKey = False\<rparr>,
      \<lparr>db_column.name = ''done'', field = ''done'', primaryKey = False\<rparr>,
      \<lparr>db_column.name = ''id'', field = ''id'', primaryKey = True\<rparr>]\<rparr>"

definition todo :: db_helper_model where
  "todo = \<lparr>rowid = JUndefined, partialWithProjection = None,
     field_values = [''title'' \<mapsto> JStr ''buy milk'', ''done'' \<mapsto> JBool False, ''id'' \<mapsto> JNum 7]\<rparr>"

definition person_table :: db_table where
  "person_table = \<lparr>db_table.name = ''person'', columnList =
     [\<lparr>db_column.name = ''name'', field = ''name'', primaryKey = False\<rparr>,
      \<lparr>db_column.name = ''age'', field = ''age'', primaryKey = False\<rparr>]\<rparr>"

definition person :: db_helper_model where
  "person = \<lparr>rowid = JUndefined, partialWithProjection = Some [''name''],
     field_values = [''name'' \<mapsto> JStr ''x'', ''age'' \<mapsto> JNum 0]\<rparr>"

definition membership_table :: db_table where
  "membership_table = \<lparr>db_table.name = ''membership'', columnList =
     [\<lparr>db_column.name = ''user_id'', field = ''user'', primaryKey = True\<rparr>,
      \<lparr>db_column.name = ''role'', field = ''role'', primaryKey = False\<rparr>,
      \<lparr>db_column.name = ''team_id'', field = ''team'', primaryKey = True\<rparr>]\<rparr>"

definition membership :: db_helper_model where
  "membership = \<lparr>rowid = JNull, partialWithProjection = None,
     field_values = [''user'' \<mapsto> JNum 4, ''role'' \<mapsto> JStr ''admin'', ''team'' \<mapsto> JNum 9]\<rparr>"

text \<open>Registries that know one table each, and one that knows no model.\<close>

definition getTodo :: "db_helper_model \<Rightarrow> string + db_table" where
  "getTodo m = Inr todo_table"

definition getPerson :: "db_helper_model \<Rightarrow> string + db_table" where
  "getPerson m = Inr person_table"

definition getMembership :: "db_helper_model \<Rightarrow> string + db_table" where
  "getMembership m = Inr membership_table"

definition getNothing :: "db_helper_model \<Rightarrow> string + db_table" where
  "getNothing m = Inl ''unregistered model''"

section \<open>Properties\<close>

subsection \<open>The loops and the method in closed form\<close>

lemma set_columns_eq:
  "set_columns m cols cs vs =
     (cs @ map db_column.name (filter (included m) cols),
      vs @ map (\<lambda>c. get_field m (field c)) (filter (included m) cols))"
  by (induction cols arbitrary: cs vs) (auto simp: included_def split: option.splits)

lemma update_where_simps:
  "model (update_where b w) = model b"
  "partial (update_where b w) = partial b"
  "whereClauses (update_where b w) =
     Some (ClauseGroup_add (case whereClauses b of None \<Rightarrow> [] | Some g \<Rightarrow> g) w)"
  by (auto simp: update_where_def Let_def split: option.splits)

lemma update_where_eq:
  "update_where b w =
     b\<lparr>whereClauses := Some (ClauseGroup_add (case whereClauses b of None \<Rightarrow> [] | Some g \<Rightarrow> g) w)\<rparr>"
  by (auto simp: update_where_def Let_def split: option.splits)

lemma add_primary_keys_eq:
  "add_primary_keys cols b =
     (if filter primaryKey cols = [] then b
      else b\<lparr>whereClauses :=
              Some ((case whereClauses b of None \<Rightarrow> [] | Some g \<Rightarrow> g)
                    @ map (\<lambda>c. ClauseEntry (equality_clause (db_column.name c) (get_field (model b) (field c))))
                        (filter primaryKey cols))\<rparr>)"
proof (induction cols arbitrary: b)
  case Nil
  show ?case by simp
next
  case (Cons c cols)
  show ?case
  proof (cases "primaryKey c")
    case True
    then show ?thesis
      by (simp add: Cons.IH update_where_eq equality_clause_def new_Clause_def)
  next
    case False
    then show ?thesis by (simp add: Cons.IH)
  qed
qed

lemma build_eq:
  assumes "getModel (model b) = Inr t"
  shows "build getModel b =
     Inr (\<lparr>table = db_table.name t, type = ''UPDATE'',
           query = set_text (model b) t
             @ (case whereClauses (after_build b t) of
                  None \<Rightarrow> []
                | Some g \<Rightarrow> '' WHERE'' @ query (ClauseGroup_build g)),
           params = set_params (model b) t
             @ (case whereClauses (after_build b t) of
                  None \<Rightarrow> []
                | Some g \<Rightarrow> params (ClauseGroup_build g))\<rparr>,
          after_build b t)"
proof (cases "truthy (rowid (model b))")
  case True
  then show ?thesis using assms
    by (simp add: build_def update_where_eq new_DbQuery_def QueryUpdate_type_def set_columns_eq
        after_build_def identity_clauses_def equality_clause_def new_Clause_def set_text_def
        set_params_def set_list_def DbQuery_append_def)
next
  case False
  then show ?thesis using assms
    by (simp add: build_def add_primary_keys_eq new_DbQuery_def QueryUpdate_type_def set_columns_eq
        after_build_def identity_clauses_def primary_keys_def set_text_def o_def
        set_params_def set_list_def DbQuery_append_def split: option.splits)
qed

lemma params_entries_build:
  "params (entries_build first es) = concat (map (\<lambda>e. params (entry_build e)) es)"
  by (induction es arbitrary: first) (simp_all add: new_DbQuery_def DbQuery_append_def)

lemma params_ClauseGroup_build_append:
  "params (ClauseGroup_build (xs @ ys)) = params (ClauseGroup_build xs) @ params (ClauseGroup_build ys)"
  by (simp add: ClauseGroup_build_def params_entries_build)

lemma query_entries_build_append:
  "query (entries_build first (xs @ ys)) =
     query (entries_build first xs) @ query (entries_build (first \<and> xs = []) ys)"
  by (induction xs arbitrary: first) (simp_all add: new_DbQuery_def DbQuery_append_def)

lemma entry_build_equality_clause:
  "query (Clause_build (equality_clause k v)) = k @ '' = (?)''"
  "params (Clause_build (equality_clause k v)) = [v]"
  "connector (equality_clause k v) = AND"
  by (simp_all add: equality_clause_def Clause_build_def new_DbQuery_def)

lemma params_equality_entries_any:
  "params (entries_build first (map (\<lambda>c. ClauseEntry (equality_clause (k c) (v c))) cs)) = map v cs"
  by (induction cs arbitrary: first)
    (simp_all add: new_DbQuery_def DbQuery_append_def entry_build_equality_clause)

lemma params_equality_entries:
  "params (ClauseGroup_build (map (\<lambda>c. ClauseEntry (equality_clause (k c) (v c))) cs)) = map v cs"
  by (simp add: ClauseGroup_build_def params_equality_entries_any)

lemma params_identity_clauses:
  "params (ClauseGroup_build (map ClauseEntry (identity_clauses m t))) = identity_params m t"
  using params_equality_entries [of "\<lambda>c. c" "\<lambda>c. rowid m" "[''rowid'']"]
    params_equality_entries [of db_column.name "\<lambda>c. get_field m (field c)" "primary_keys t"]
  by (simp add: identity_clauses_def identity_params_def o_def)

lemma query_equality_entries_rest:
  "query (entries_build False (map (\<lambda>c. ClauseEntry (equality_clause (k c) (v c))) cs)) =
     concat (map (\<lambda>c. '' AND '' @ k c @ '' = (?)'') cs)"
  by (induction cs)
    (simp_all add: entry_build_equality_clause new_DbQuery_def DbQuery_append_def)

lemma join_Cons: "join sep (x # xs) = x @ concat (map (\<lambda>y. sep @ y) xs)"
  by (induction xs arbitrary: x) simp_all

lemma query_equality_entries:
  "cs \<noteq> [] \<Longrightarrow>
   query (ClauseGroup_build (map (\<lambda>c. ClauseEntry (equality_clause (k c) (v c))) cs)) =
     '' '' @ join '' AND '' (map (\<lambda>c. k c @ '' = (?)'') cs)"
  by (cases cs)
    (simp_all add: ClauseGroup_build_def query_equality_entries_rest join_Cons o_def
      entry_build_equality_clause new_DbQuery_def DbQuery_append_def)

lemma sublist_skip_char:
  assumes "c \<notin> set p" and "sublist p (n @ c # rest)"
  shows "sublist p n \<or> sublist p rest"
proof -
  from assms(2) consider "sublist p n" | "sublist p (c # rest)"
    | xs1 xs2 where "p = xs1 @ xs2" "suffix xs1 n" "prefix xs2 (c # rest)"
    by (auto simp: sublist_append)
  then show ?thesis
  proof cases
    case 1
    then show ?thesis by simp
  next
    case 2
    then have "prefix p (c # rest) \<or> sublist p rest" by (simp add: sublist_Cons_right)
    with assms(1) show ?thesis by (cases p) auto
  next
    case 3
    with assms(1) show ?thesis by (cases xs2) auto
  qed
qed

lemma sublist_WHERE_skip_name:
  assumes "\<not> sublist ''WHERE'' n" and "sublist ''WHERE'' (n @ CHR '' '' # rest)"
  shows "sublist ''WHERE'' rest"
  using sublist_skip_char [of "CHR '' ''" "''WHERE''" n rest] assms by simp

lemma sublist_WHERE_skip_char:
  "c \<noteq> CHR ''W'' \<Longrightarrow> sublist ''WHERE'' (c # s) = sublist ''WHERE'' s"
  by (simp add: sublist_Cons_right)

lemma no_WHERE_in_set_list:
  "\<forall>n \<in> set names. \<not> sublist ''WHERE'' n \<Longrightarrow>
   \<not> sublist ''WHERE'' (join '' = (?), '' names @ '' = (?) '')"
proof (induction "'' = (?), ''" names rule: join.induct)
  case 1
  show ?case by (simp add: sublist_WHERE_skip_char)
next
  case (2 x)
  show ?case
  proof
    assume "sublist ''WHERE'' (join '' = (?), '' [x] @ '' = (?) '')"
    then have "sublist ''WHERE'' (x @ CHR '' '' # ''= (?) '')" by simp
    with 2 have "sublist ''WHERE'' ''= (?) ''" by (auto dest: sublist_WHERE_skip_name)
    then show False by (simp add: sublist_WHERE_skip_char)
  qed
next
  case (3 x y ys)
  show ?case
  proof
    assume "sublist ''WHERE'' (join '' = (?), '' (x # y # ys) @ '' = (?) '')"
    then have "sublist ''WHERE'' (x @ CHR '' '' # (''= (?), '' @ join '' = (?), '' (y # ys) @ '' = (?) ''))"
      by simp
    with 3(2) have "sublist ''WHERE'' (''= (?), '' @ join '' = (?), '' (y # ys) @ '' = (?) '')"
      by (auto dest: sublist_WHERE_skip_name)
    then have "sublist ''WHERE'' (join '' = (?), '' (y # ys) @ '' = (?) '')"
      by (simp add: sublist_WHERE_skip_char)
    with 3 show False by simp
  qed
qed

lemma no_WHERE_in_set_text:
  assumes "\<not> sublist ''WHERE'' (db_table.name t)"
    and "\<forall>c \<in> set (columnList t). \<not> sublist ''WHERE'' (db_column.name c)"
  shows "\<not> sublist ''WHERE'' (set_text m t)"
proof
  assume "sublist ''WHERE'' (set_text m t)"
  then have "sublist ''WHERE'' (db_table.name t @ CHR '' '' #
      (''SET '' @ join '' = (?), '' (map db_column.name (set_list m t)) @ '' = (?) ''))"
    by (simp add: set_text_def sublist_WHERE_skip_char)
  with assms(1) have "sublist ''WHERE''
      (''SET '' @ join '' = (?), '' (map db_column.name (set_list m t)) @ '' = (?) '')"
    by (rule sublist_WHERE_skip_name)
  then have "sublist ''WHERE'' (join '' = (?), '' (map db_column.name (set_list m t)) @ '' = (?) '')"
    by (simp add: sublist_WHERE_skip_char)
  moreover have "\<forall>n \<in> set (map db_column.name (set_list m t)). \<not> sublist ''WHERE'' n"
    using assms(2) by (auto simp: set_list_def)
  ultimately show False using no_WHERE_in_set_list by blast
qed

lemma sublist_keyword: "sublist '' WHERE'' s \<Longrightarrow> sublist ''WHERE'' s"
proof -
  assume "sublist '' WHERE'' s"
  then obtain ps ss where "s = ps @ '' WHERE'' @ ss" by (auto simp: sublist_def)
  then have "s = (ps @ '' '') @ ''WHERE'' @ ss" by simp
  then show ?thesis unfolding sublist_def by blast
qed

lemma after_build_partial:
  "after_build (b\<lparr>partial := p\<rparr>) t = (after_build b t)\<lparr>partial := p\<rparr>"
  by (simp add: after_build_def)

lemma whereClauses_after_build:
  "whereClauses (after_build b t) =
     (case whereClauses b of
        None \<Rightarrow> if identity_clauses (model b) t = [] then None
                else Some (map ClauseEntry (identity_clauses (model b) t))
      | Some g \<Rightarrow> Some (g @ map ClauseEntry (identity_clauses (model b) t)))"
  by (simp add: after_build_def split: option.splits)

lemma model_after_build: "model (after_build b t) = model b"
  by (simp add: after_build_def)

lemma key_equality_clause: "key (equality_clause k v) = k"
  by (simp add: equality_clause_def)

lemma query_identity_clauses_again:
  "query (entries_build False (map ClauseEntry (identity_clauses m t))) =
     concat (map (\<lambda>c. '' AND '' @ key c @ '' = (?)'') (identity_clauses m t))"
  using query_equality_entries_rest [of "\<lambda>c. c" "\<lambda>c. rowid m" "[''rowid'']"]
    query_equality_entries_rest [of db_column.name "\<lambda>c. get_field m (field c)" "primary_keys t"]
  by (simp add: identity_clauses_def o_def key_equality_clause)

lemma after_build_twice:
  "whereClauses (after_build (after_build b t) t) =
     (if identity_clauses (model b) t = [] then whereClauses b
      else Some ((case whereClauses b of None \<Rightarrow> [] | Some g \<Rightarrow> g)
                 @ map ClauseEntry (identity_clauses (model b) t)
                 @ map ClauseEntry (identity_clauses (model b) t)))"
  by (simp add: after_build_def split: option.splits)

lemma ClauseGroup_build_again:
  "xs \<noteq> [] \<Longrightarrow>
   query (ClauseGroup_build (xs @ ys)) = query (ClauseGroup_build xs) @ query (entries_build False ys)"
  by (simp add: ClauseGroup_build_def query_entries_build_append)

lemmas example_defs = todo_table_def todo_def person_table_def person_def getTodo_def getPerson_def
  getNothing_def

lemmas more_defs = membership_table_def membership_def getMembership_def

lemmas eval_defs = build_def QueryUpdate_def Update_def new_DbQuery_def QueryUpdate_type_def
  update_where_def new_Clause_def get_field_def DbQuery_append_def ClauseGroup_build_def
  Clause_build_def

subsection \<open>Placeholders and parameters\<close>

text \<open>
  When the SET list holds a column and no name, key or operator holds a question mark,
  the text of the built query has as many placeholders as the query has parameters.
\<close>

lemma placeholders_append [simp]: "placeholders (a @ b) = placeholders a + placeholders b"
  by (simp add: placeholders_def)

lemma placeholders_Cons [simp]:
  "placeholders (c # s) = (if c = CHR ''?'' then Suc (placeholders s) else placeholders s)"
  by (simp add: placeholders_def)

lemma placeholders_Nil [simp]: "placeholders [] = 0"
  by (simp add: placeholders_def)

lemma placeholders_plain: "CHR ''?'' \<notin> set s \<Longrightarrow> placeholders s = 0"
  by (induction s) auto

lemma placeholders_connector_text [simp]: "placeholders (connector_text k) = 0"
  by (cases k) simp_all

lemma placeholders_marks: "placeholders (join '', '' (map (\<lambda>v. ''?'') vs)) = length vs"
proof (cases vs)
  case Nil
  then show ?thesis by simp
next
  case (Cons v ws)
  have "placeholders (concat (map (\<lambda>y. '', '' @ y) (map (\<lambda>v. ''?'') ws))) = length ws"
    by (induction ws) simp_all
  with Cons show ?thesis by (simp add: join_Cons)
qed

lemma placeholders_Clause_build:
  "CHR ''?'' \<notin> set (key c) \<Longrightarrow> CHR ''?'' \<notin> set (operator c) \<Longrightarrow>
   placeholders (query (Clause_build c)) = length (params (Clause_build c))"
  by (cases "clause_value c")
    (simp_all add: Clause_build_def new_DbQuery_def placeholders_plain placeholders_marks)

lemma placeholders_entries:
  "plain_entry e \<Longrightarrow> placeholders (query (entry_build e)) = length (params (entry_build e))"
  "plain_entries es \<Longrightarrow>
   placeholders (query (entries_build first es)) = length (params (entries_build first es))"
  by (induction e and first es rule: entry_build_entries_build.induct)
    (simp_all add: placeholders_Clause_build new_DbQuery_def DbQuery_append_def Let_def)

lemma placeholders_set_list:
  "names \<noteq> [] \<Longrightarrow> \<forall>n \<in> set names. CHR ''?'' \<notin> set n \<Longrightarrow>
   placeholders (join '' = (?), '' names @ '' = (?) '') = length names"
  by (induction "'' = (?), ''" names rule: join.induct) (simp_all add: placeholders_plain)

lemma plain_entries_append: "plain_entries (xs @ ys) = (plain_entries xs \<and> plain_entries ys)"
  by (induction xs) simp_all

lemma plain_identity_clauses:
  "\<forall>c \<in> set (columnList t). CHR ''?'' \<notin> set (db_column.name c) \<Longrightarrow>
   plain_entries (map ClauseEntry (identity_clauses m t))"
proof -
  have "plain_entries (map (\<lambda>c. ClauseEntry (equality_clause (db_column.name c) (v c))) cs)"
    if "\<forall>c \<in> set cs. CHR ''?'' \<notin> set (db_column.name c)" for cs :: "db_column list" and v
    using that by (induction cs) (simp_all add: equality_clause_def)
  from this [of "primary_keys t" "\<lambda>c. get_field m (field c)"]
  show ?thesis if "\<forall>c \<in> set (columnList t). CHR ''?'' \<notin> set (db_column.name c)"
    using that by (simp add: identity_clauses_def primary_keys_def equality_clause_def o_def)
qed

lemma build_placeholders:
  assumes "getModel (model b) = Inr t"
    and "set_list (model b) t \<noteq> []"
    and "CHR ''?'' \<notin> set (db_table.name t)"
    and "\<forall>c \<in> set (columnList t). CHR ''?'' \<notin> set (db_column.name c)"
    and "case whereClauses b of None \<Rightarrow> True | Some g \<Rightarrow> plain_entries g"
    and "build getModel b = Inr (q, b')"
  shows "placeholders (query q) = length (params q)"
proof -
  have names: "\<forall>n \<in> set (map db_column.name (set_list (model b) t)). CHR ''?'' \<notin> set n"
    using assms(4) by (auto simp: set_list_def)
  have set_part: "placeholders (set_text (model b) t) = length (set_params (model b) t)"
    using assms(2,3) placeholders_set_list [OF _ names]
    by (simp add: set_text_def set_params_def placeholders_plain)
  have "plain_entries g" if "whereClauses (after_build b t) = Some g" for g
    using that assms(5) plain_identity_clauses [OF assms(4), of "model b"]
    by (auto simp: whereClauses_after_build plain_entries_append split: option.splits if_splits)
  then have "placeholders (query (ClauseGroup_build g)) = length (params (ClauseGroup_build g))"
    if "whereClauses (after_build b t) = Some g" for g
    using that by (simp add: ClauseGroup_build_def placeholders_entries)
  with assms(6) set_part show ?thesis
    by (auto simp: build_eq [of getModel b t, OF assms(1)] split: option.splits)
qed

subsection \<open>A builder fresh from the constructor\<close>

text \<open>
  When the row identity of the model is not truthy, no column is flagged primary key and
  \<^verbatim>\<open>where\<close> was never called, \<^verbatim>\<open>build\<close> returns a query and leaves the builder as it was;
  the text is the UPDATE and SET part and nothing else, and it does not contain
  \<^verbatim>\<open> WHERE\<close> unless the table's name or a column's name contains \<^verbatim>\<open>WHERE\<close>.
\<close>

theorem no_identity_no_where:
  assumes "getModel (model b) = Inr t" and "\<not> truthy (rowid (model b))"
    and "primary_keys t = []" and "whereClauses b = None"
  shows "\<exists>q. build getModel b = Inr (q, b)
     \<and> query q = ''UPDATE '' @ db_table.name t @ '' SET ''
         @ join '' = (?), '' (map db_column.name (set_list (model b) t)) @ '' = (?) ''
     \<and> (\<not> sublist ''WHERE'' (db_table.name t)
          \<and> (\<forall>c \<in> set (columnList t). \<not> sublist ''WHERE'' (db_column.name c))
        \<longrightarrow> \<not> sublist '' WHERE'' (query q))"
proof -
  have ids: "identity_clauses (model b) t = []"
    using assms(2,3) by (simp add: identity_clauses_def)
  have same: "after_build b t = b"
    by (simp add: after_build_def ids)
  have "\<not> sublist '' WHERE'' (set_text (model b) t)"
    if "\<not> sublist ''WHERE'' (db_table.name t)"
      and "\<forall>c \<in> set (columnList t). \<not> sublist ''WHERE'' (db_column.name c)"
    using no_WHERE_in_set_text [OF that] sublist_keyword by blast
  then show ?thesis
    using assms(4) by (simp add: build_eq [of getModel b t, OF assms(1)] same set_text_def)
qed

theorem no_identity_no_where_witness:
  "getPerson (model (Update person False)) = Inr person_table
   \<and> \<not> truthy (rowid (model (Update person False)))
   \<and> primary_keys person_table = []
   \<and> whereClauses (Update person False) = None
   \<and> \<not> sublist ''WHERE'' (db_table.name person_table)
   \<and> map db_column.name (columnList person_table) = [''name'', ''age'']
   \<and> \<not> sublist ''WHERE'' ''name'' \<and> \<not> sublist ''WHERE'' ''age''
   \<and> (\<exists>q. build getPerson (Update person False) = Inr (q, Update person False)
        \<and> query q = ''UPDATE person SET name = (?) ''
        \<and> \<not> sublist '' WHERE'' (query q))"
  using no_identity_no_where [of getPerson "Update person False" person_table]
  by (simp add: example_defs Update_def QueryUpdate_def primary_keys_def set_list_def included_def
      get_field_def sublist_Cons_right)

subsection \<open>The claims\<close>

text \<open>
  Claim C1 fails where no column passes the filter of the partial projection: for the
  instance \<^verbatim>\<open>{name:"", age:0}\<close> with an empty projection the text is
  \<^verbatim>\<open>UPDATE person SET  = (?) \<close>, with one placeholder, and there is no parameter.
\<close>

theorem empty_set_list_placeholder:
  "map_sum id fst (build getPerson (Update (person\<lparr>partialWithProjection := Some [],
       field_values := [''name'' \<mapsto> JStr '''', ''age'' \<mapsto> JNum 0]\<rparr>) True)) =
     Inr \<lparr>table = ''person'', type = ''UPDATE'', query = ''UPDATE person SET  = (?) '', params = []\<rparr>
   \<and> placeholders ''UPDATE person SET  = (?) '' = 1"
  by (simp add: eval_defs example_defs placeholders_def)

text \<open>
  Claim C2, as stated, fails: with a clause \<^verbatim>\<open>{owner: "bob"}\<close> added by the caller before
  \<^verbatim>\<open>build\<close>, the parameters are not the values of the SET list, then the primary key's
  value, then the caller's value.
\<close>

theorem identity_first_counterexample:
  "map_sum id (params \<circ> fst)
     (build getTodo (update_where (Update todo False) (Mapping [(''owner'', Scalar (JStr ''bob''))])))
   \<noteq> Inr (set_params todo todo_table @ identity_params todo todo_table @ [JStr ''bob''])"
  by (simp add: eval_defs example_defs set_params_def set_list_def included_def identity_params_def
      primary_keys_def)

text \<open>
  Claim C2, amended. For a builder on which \<^verbatim>\<open>where\<close> was called before \<^verbatim>\<open>build\<close>, the
  parameters are the values of the SET list, then the values of the clauses the caller
  added, then the values of the identity clauses \<^verbatim>\<open>build\<close> synthesizes; the text has the
  same order: the SET part, \<^verbatim>\<open> WHERE\<close>, the caller's clauses, the identity clauses.
\<close>

theorem params_order:
  assumes "getModel (model b) = Inr t" and "whereClauses b = Some g"
  shows "\<exists>q b'. build getModel b = Inr (q, b')
     \<and> query q = set_text (model b) t @ '' WHERE'' @ query (ClauseGroup_build g)
         @ query (entries_build (g = []) (map ClauseEntry (identity_clauses (model b) t)))
     \<and> params q = set_params (model b) t @ params (ClauseGroup_build g)
         @ identity_params (model b) t"
  using assms(2)
  by (simp add: build_eq [of getModel b t, OF assms(1)] whereClauses_after_build
      params_ClauseGroup_build_append params_identity_clauses)
    (simp add: ClauseGroup_build_def query_entries_build_append)

theorem params_order_witness:
  "getTodo (model (update_where (Update todo False) (Mapping [(''owner'', Scalar (JStr ''bob''))])))
     = Inr todo_table
   \<and> whereClauses (update_where (Update todo False) (Mapping [(''owner'', Scalar (JStr ''bob''))]))
     = Some [ClauseEntry (equality_clause ''owner'' (JStr ''bob''))]
   \<and> (\<exists>q b'. build getTodo
          (update_where (Update todo False) (Mapping [(''owner'', Scalar (JStr ''bob''))])) = Inr (q, b')
        \<and> query q = ''UPDATE todo SET title = (?), done = (?), id = (?)  WHERE owner = (?) AND id = (?)''
        \<and> params q = [JStr ''buy milk'', JBool False, JNum 7, JStr ''bob'', JNum 7])"
  using params_order [of getTodo
      "update_where (Update todo False) (Mapping [(''owner'', Scalar (JStr ''bob''))])" todo_table
      "[ClauseEntry (equality_clause ''owner'' (JStr ''bob''))]"]
  by (simp add: example_defs Update_def QueryUpdate_def update_where_def new_Clause_def
      equality_clause_def set_text_def set_params_def set_list_def included_def get_field_def
      identity_clauses_def identity_params_def primary_keys_def ClauseGroup_build_def
      Clause_build_def new_DbQuery_def DbQuery_append_def)

text \<open>
  Claim C3, as stated, fails at the row identity 0, which is not null: the condition of
  line 82 reads it as false, and the clause of the WHERE part is the primary key's, not
  \<^verbatim>\<open>rowid = (?)\<close>.
\<close>

theorem zero_rowid_counterexample:
  "map_sum id fst (build getTodo (Update (todo\<lparr>rowid := JNum 0\<rparr>) False)) =
     Inr \<lparr>table = ''todo'', type = ''UPDATE'',
          query = ''UPDATE todo SET title = (?), done = (?), id = (?)  WHERE id = (?)'',
          params = [JStr ''buy milk'', JBool False, JNum 7, JNum 7]\<rparr>
   \<and> map_sum id (whereClauses \<circ> snd) (build getTodo (Update (todo\<lparr>rowid := JNum 0\<rparr>) False))
       \<noteq> Inr (Some [ClauseEntry (equality_clause ''rowid'' (JNum 0))])"
  by (simp add: eval_defs example_defs equality_clause_def)

text \<open>
  Claim C3, amended. When the row identity of the model is truthy (neither undefined nor
  null, nor 0, nor the empty string, nor false) and the caller added no where clause, the
  where group \<^verbatim>\<open>build\<close> leaves holds one clause, \<^verbatim>\<open>rowid = (?)\<close> bound to that value, the
  text ends with \<^verbatim>\<open> WHERE rowid = (?)\<close> and the row identity is the last parameter, however
  many columns are flagged primary key.
\<close>

theorem rowid_is_the_sole_identity:
  assumes "getModel (model b) = Inr t" and "truthy (rowid (model b))" and "whereClauses b = None"
  shows "\<exists>q b'. build getModel b = Inr (q, b')
     \<and> whereClauses b' = Some [ClauseEntry (equality_clause ''rowid'' (rowid (model b)))]
     \<and> query q = set_text (model b) t @ '' WHERE rowid = (?)''
     \<and> params q = set_params (model b) t @ [rowid (model b)]"
proof -
  have ids: "identity_clauses (model b) t = [equality_clause ''rowid'' (rowid (model b))]"
    using assms(2) by (simp add: identity_clauses_def)
  have "query (ClauseGroup_build [ClauseEntry (equality_clause ''rowid'' (rowid (model b)))])
      = '' rowid = (?)''"
    and "params (ClauseGroup_build [ClauseEntry (equality_clause ''rowid'' (rowid (model b)))])
      = [rowid (model b)]"
    by (simp_all add: ClauseGroup_build_def entry_build_equality_clause new_DbQuery_def
        DbQuery_append_def)
  then show ?thesis
    using assms(3) by (simp add: build_eq [of getModel b t, OF assms(1)] whereClauses_after_build ids)
qed

theorem rowid_is_the_sole_identity_witness:
  "getTodo (model (Update (todo\<lparr>rowid := JNum 3\<rparr>) False)) = Inr todo_table
   \<and> truthy (rowid (model (Update (todo\<lparr>rowid := JNum 3\<rparr>) False)))
   \<and> whereClauses (Update (todo\<lparr>rowid := JNum 3\<rparr>) False) = None
   \<and> (\<exists>q b'. build getTodo (Update (todo\<lparr>rowid := JNum 3\<rparr>) False) = Inr (q, b')
        \<and> whereClauses b' = Some [ClauseEntry (equality_clause ''rowid'' (JNum 3))]
        \<and> query q = ''UPDATE todo SET title = (?), done = (?), id = (?)  WHERE rowid = (?)''
        \<and> params q = [JStr ''buy milk'', JBool False, JNum 7, JNum 3])"
  using rowid_is_the_sole_identity [of getTodo "Update (todo\<lparr>rowid := JNum 3\<rparr>) False" todo_table]
  by (simp add: getTodo_def Update_def QueryUpdate_def todo_def todo_table_def set_text_def
      set_params_def set_list_def included_def get_field_def)

text \<open>
  Claim C4, as stated, fails: for the instance \<^verbatim>\<open>{title:"buy milk", done:false, id:7}\<close> of
  the table \<^verbatim>\<open>todo\<close> with the columns \<^verbatim>\<open>title\<close>, \<^verbatim>\<open>done\<close> and the primary key \<^verbatim>\<open>id\<close>, the
  parameters are not \<^verbatim>\<open>["buy milk", false, 7]\<close>.
\<close>

theorem todo_params_counterexample:
  "map_sum id (params \<circ> fst) (build getTodo (Update todo False))
     \<noteq> Inr [JStr ''buy milk'', JBool False, JNum 7]"
  by (simp add: eval_defs example_defs)

text \<open>
  Claim C4, amended. In full mode the SET list holds every column of the table, the
  primary key too: the text is
  \<^verbatim>\<open>UPDATE todo SET title = (?), done = (?), id = (?)  WHERE id = (?)\<close> and the parameters
  are \<^verbatim>\<open>["buy milk", false, 7, 7]\<close>.
\<close>

theorem todo_update_query:
  "map_sum id fst (build getTodo (Update todo False)) =
     Inr \<lparr>table = ''todo'', type = ''UPDATE'',
          query = ''UPDATE todo SET title = (?), done = (?), id = (?)  WHERE id = (?)'',
          params = [JStr ''buy milk'', JBool False, JNum 7, JNum 7]\<rparr>"
  by (simp add: eval_defs example_defs)

text \<open>
  Claim C5, as stated, fails: \<^verbatim>\<open>build\<close> adds the identity clauses to the where group of the
  builder, so a second call on the same builder renders them twice.
\<close>

theorem second_build_counterexample:
  "build_twice getTodo (Update todo False) =
     Inr (\<lparr>table = ''todo'', type = ''UPDATE'',
           query = ''UPDATE todo SET title = (?), done = (?), id = (?)  WHERE id = (?)'',
           params = [JStr ''buy milk'', JBool False, JNum 7, JNum 7]\<rparr>,
          \<lparr>table = ''todo'', type = ''UPDATE'',
           query = ''UPDATE todo SET title = (?), done = (?), id = (?)  WHERE id = (?) AND id = (?)'',
           params = [JStr ''buy milk'', JBool False, JNum 7, JNum 7, JNum 7]\<rparr>)
   \<and> map_sum id fst (build_twice getTodo (Update todo False))
       \<noteq> map_sum id snd (build_twice getTodo (Update todo False))"
  by (simp add: build_twice_def eval_defs example_defs)

text \<open>
  Claim C5, amended. \<^verbatim>\<open>build\<close> is a function of the registry and of the builder's state;
  it leaves the model and the flag unchanged and adds the identity clauses it synthesizes
  to the where group of the builder. Two calls in succession on one builder both return a
  query, and the second query is the first one with the identity clauses rendered once
  more: its text is the first text followed by \<^verbatim>\<open> AND <key> = (?)\<close> for each identity
  clause, its parameters are the first parameters followed by the identity values, and
  table and type are the same. With no identity clause the two queries are equal.
\<close>

theorem successive_builds:
  assumes "getModel (model b) = Inr t"
  shows "\<exists>q1 b1 q2 b2.
       build getModel b = Inr (q1, b1) \<and> build getModel b1 = Inr (q2, b2)
     \<and> build_twice getModel b = Inr (q1, q2)
     \<and> model b1 = model b \<and> partial b1 = partial b
     \<and> whereClauses b1 =
         (if identity_clauses (model b) t = [] then whereClauses b
          else Some ((case whereClauses b of None \<Rightarrow> [] | Some g \<Rightarrow> g)
                     @ map ClauseEntry (identity_clauses (model b) t)))
     \<and> whereClauses b2 =
         (if identity_clauses (model b) t = [] then whereClauses b
          else Some ((case whereClauses b of None \<Rightarrow> [] | Some g \<Rightarrow> g)
                     @ map ClauseEntry (identity_clauses (model b) t)
                     @ map ClauseEntry (identity_clauses (model b) t)))
     \<and> prefix (set_text (model b) t) (query q1) \<and> prefix (set_params (model b) t) (params q1)
     \<and> q2 = q1\<lparr>query := query q1
                    @ concat (map (\<lambda>c. '' AND '' @ key c @ '' = (?)'') (identity_clauses (model b) t)),
                 params := params q1 @ identity_params (model b) t\<rparr>"
proof -
  let ?b1 = "after_build b t"
  let ?ids = "map ClauseEntry (identity_clauses (model b) t)"
  have again: "getModel (model ?b1) = Inr t"
    using assms by (simp add: model_after_build)
  have first: "build getModel b = Inr (fst (projr (build getModel b)), ?b1)"
    by (simp add: build_eq [of getModel b t, OF assms])
  have second: "build getModel ?b1 = Inr (fst (projr (build getModel ?b1)), after_build ?b1 t)"
    by (simp add: build_eq [of getModel ?b1 t, OF again])
  have b1: "whereClauses ?b1 =
      (if identity_clauses (model b) t = [] then whereClauses b
       else Some ((case whereClauses b of None \<Rightarrow> [] | Some g \<Rightarrow> g) @ ?ids))"
    by (simp add: after_build_def)
  have rel: "fst (projr (build getModel ?b1)) =
      (fst (projr (build getModel b)))
        \<lparr>query := query (fst (projr (build getModel b)))
            @ concat (map (\<lambda>c. '' AND '' @ key c @ '' = (?)'') (identity_clauses (model b) t)),
         params := params (fst (projr (build getModel b))) @ identity_params (model b) t\<rparr>"
  proof (cases "identity_clauses (model b) t = []")
    case True
    then have "after_build b t = b" by (simp add: after_build_def)
    moreover from True have "identity_params (model b) t = []"
      by (auto simp: identity_clauses_def identity_params_def split: if_splits)
    ultimately show ?thesis using True by simp
  next
    case False
    then show ?thesis
      by (simp add: build_eq [of getModel b t, OF assms] build_eq [of getModel ?b1 t, OF again]
          model_after_build after_build_twice b1 ClauseGroup_build_again
          params_ClauseGroup_build_append params_identity_clauses
          query_identity_clauses_again
          del: append_assoc add: append_assoc [symmetric])
  qed
  have pre: "prefix (set_text (model b) t) (query (fst (projr (build getModel b))))"
    "prefix (set_params (model b) t) (params (fst (projr (build getModel b))))"
    by (simp_all add: build_eq [of getModel b t, OF assms])
  have twice: "build_twice getModel b =
      Inr (fst (projr (build getModel b)), fst (projr (build getModel ?b1)))"
    by (simp add: build_twice_def build_eq [of getModel b t, OF assms]
        build_eq [of getModel ?b1 t, OF again])
  show ?thesis
    using first second twice rel pre b1 after_build_twice [of b t]
    by (intro exI [of _ "fst (projr (build getModel b))"] exI [of _ ?b1]
        exI [of _ "fst (projr (build getModel ?b1))"] exI [of _ "after_build ?b1 t"])
      (simp add: model_after_build after_build_def)
qed

theorem successive_builds_witness:
  "getTodo (model (Update todo False)) = Inr todo_table
   \<and> (\<exists>q1 b1 q2 b2.
        build getTodo (Update todo False) = Inr (q1, b1) \<and> build getTodo b1 = Inr (q2, b2)
      \<and> build_twice getTodo (Update todo False) = Inr (q1, q2)
      \<and> model b1 = todo \<and> partial b1 = False
      \<and> whereClauses b1 = Some [ClauseEntry (equality_clause ''id'' (JNum 7))]
      \<and> whereClauses b2 = Some [ClauseEntry (equality_clause ''id'' (JNum 7)),
                                ClauseEntry (equality_clause ''id'' (JNum 7))]
      \<and> prefix ''UPDATE todo SET title = (?), done = (?), id = (?) '' (query q1)
      \<and> prefix [JStr ''buy milk'', JBool False, JNum 7] (params q1)
      \<and> q2 = q1\<lparr>query := query q1 @ '' AND id = (?)'', params := params q1 @ [JNum 7]\<rparr>)
   \<and> getPerson (model (Update person False)) = Inr person_table
   \<and> (\<exists>q1 b1 q2 b2.
        build getPerson (Update person False) = Inr (q1, b1) \<and> build getPerson b1 = Inr (q2, b2)
      \<and> build_twice getPerson (Update person False) = Inr (q1, q2)
      \<and> whereClauses b1 = None \<and> whereClauses b2 = None \<and> q2 = q1)"
proof -
  have ids: "identity_clauses todo todo_table = [equality_clause ''id'' (JNum 7)]"
    "identity_params todo todo_table = [JNum 7]"
    "set_text todo todo_table = ''UPDATE todo SET title = (?), done = (?), id = (?) ''"
    "set_params todo todo_table = [JStr ''buy milk'', JBool False, JNum 7]"
    "identity_clauses person person_table = []"
    "identity_params person person_table = []"
    by (simp_all add: identity_clauses_def identity_params_def primary_keys_def set_text_def
        set_params_def set_list_def included_def get_field_def example_defs)
  show ?thesis
    using successive_builds [of getTodo "Update todo False" todo_table]
      successive_builds [of getPerson "Update person False" person_table]
    by (simp add: ids Update_def QueryUpdate_def getTodo_def getPerson_def key_equality_clause)
      blast
qed

text \<open>
  Claim C6, as stated, fails in its second half when the mode is read as the
  constructor's flag: a builder made in full mode (\<^verbatim>\<open>partial\<close> false) for the instance
  \<^verbatim>\<open>{name:"x", age:0}\<close> that carries the projection \<^verbatim>\<open>["name"]\<close> leaves the column \<^verbatim>\<open>age\<close>
  out of the SET list.
\<close>

theorem full_mode_counterexample:
  "partial (Update person False) = False
   \<and> map db_column.name (columnList person_table) = [''name'', ''age'']
   \<and> map_sum id fst (build getPerson (Update person False)) =
       Inr \<lparr>table = ''person'', type = ''UPDATE'', query = ''UPDATE person SET name = (?) '',
            params = [JStr ''x'']\<rparr>
   \<and> map_sum id (query \<circ> fst) (build getPerson (Update person False))
       \<noteq> Inr ''UPDATE person SET name = (?), age = (?) ''"
  by (simp add: eval_defs example_defs)

text \<open>
  Claim C6, amended. The model's projection decides, not the constructor's flag. For the
  instance \<^verbatim>\<open>{name:"x", age:0}\<close> with the projection \<^verbatim>\<open>["name"]\<close> the SET list holds the
  column \<^verbatim>\<open>name\<close> only. In general, when the model has a projection the SET list holds,
  in the order of the column list, the columns named in the projection or whose field's
  value is truthy; when the model has none the SET list holds every column of the column
  list in order. The parameters start with the values of these columns.
\<close>

theorem set_list_partial_and_full:
  assumes "getModel (model b) = Inr t"
  shows "map_sum id fst (build getPerson (Update person True)) =
       Inr \<lparr>table = ''person'', type = ''UPDATE'', query = ''UPDATE person SET name = (?) '',
            params = [JStr ''x'']\<rparr>
     \<and> (partialWithProjection (model b) = Some projection \<longrightarrow>
          (\<exists>q b'. build getModel b = Inr (q, b')
            \<and> prefix (''UPDATE '' @ db_table.name t @ '' SET ''
                 @ join '' = (?), ''
                     (map db_column.name
                        (filter (\<lambda>c. db_column.name c \<in> set projection
                                   \<or> truthy (get_field (model b) (field c))) (columnList t)))
                 @ '' = (?) '') (query q)
            \<and> prefix (map (\<lambda>c. get_field (model b) (field c))
                        (filter (\<lambda>c. db_column.name c \<in> set projection
                                   \<or> truthy (get_field (model b) (field c))) (columnList t)))
                 (params q)))
     \<and> (partialWithProjection (model b) = None \<longrightarrow>
          (\<exists>q b'. build getModel b = Inr (q, b')
            \<and> prefix (''UPDATE '' @ db_table.name t @ '' SET ''
                 @ join '' = (?), '' (map db_column.name (columnList t)) @ '' = (?) '') (query q)
            \<and> prefix (map (\<lambda>c. get_field (model b) (field c)) (columnList t)) (params q)))"
proof -
  have "map_sum id fst (build getPerson (Update person True)) =
       Inr \<lparr>table = ''person'', type = ''UPDATE'', query = ''UPDATE person SET name = (?) '',
            params = [JStr ''x'']\<rparr>"
    by (simp add: eval_defs example_defs)
  moreover have "set_list (model b) t =
      filter (\<lambda>c. db_column.name c \<in> set projection \<or> truthy (get_field (model b) (field c)))
        (columnList t)" if "partialWithProjection (model b) = Some projection"
    using that by (simp add: set_list_def included_def [abs_def])
  moreover have "set_list (model b) t = columnList t" if "partialWithProjection (model b) = None"
    using that by (simp add: set_list_def included_def)
  ultimately show ?thesis
    by (auto simp: build_eq [of getModel b t, OF assms] set_text_def set_params_def)
qed

theorem set_list_partial_and_full_witness:
  "getPerson (model (Update person True)) = Inr person_table
   \<and> partialWithProjection (model (Update person True)) = Some [''name'']
   \<and> (\<exists>q b'. build getPerson (Update person True) = Inr (q, b')
        \<and> prefix ''UPDATE person SET name = (?) '' (query q) \<and> prefix [JStr ''x''] (params q))
   \<and> partialWithProjection (model (Update (person\<lparr>partialWithProjection := None\<rparr>) False)) = None
   \<and> (\<exists>q b'. build getPerson (Update (person\<lparr>partialWithProjection := None\<rparr>) False) = Inr (q, b')
        \<and> prefix ''UPDATE person SET name = (?), age = (?) '' (query q)
        \<and> prefix [JStr ''x'', JNum 0] (params q))"
  using set_list_partial_and_full [of getPerson "Update person True" person_table "[''name'']"]
    set_list_partial_and_full [of getPerson "Update (person\<lparr>partialWithProjection := None\<rparr>) False"
      person_table "[]"]
  by (simp add: example_defs Update_def QueryUpdate_def get_field_def)

text \<open>
  Claim C7. When the row identity of the model is not truthy and the caller added no where
  clause, the where group \<^verbatim>\<open>build\<close> leaves holds one equality clause for each column
  flagged primary key, in the order of the column list, bound to the value of that
  column's field; the text after the SET list is \<^verbatim>\<open> WHERE\<close> and these clauses joined by
  \<^verbatim>\<open>AND\<close>, and their values follow the parameters of the SET list. With no such column
  there is no where group and no text after the SET list.
\<close>

theorem primary_keys_are_the_identity:
  assumes "getModel (model b) = Inr t" and "\<not> truthy (rowid (model b))" and "whereClauses b = None"
  shows "\<exists>q b'. build getModel b = Inr (q, b')
     \<and> whereClauses b' =
         (if primary_keys t = [] then None
          else Some (map (\<lambda>c. ClauseEntry (equality_clause (db_column.name c)
                                 (get_field (model b) (field c)))) (primary_keys t)))
     \<and> query q = set_text (model b) t
         @ (if primary_keys t = [] then []
            else '' WHERE '' @ join '' AND '' (map (\<lambda>c. db_column.name c @ '' = (?)'') (primary_keys t)))
     \<and> params q = set_params (model b) t @ map (\<lambda>c. get_field (model b) (field c)) (primary_keys t)"
proof -
  have ids: "identity_clauses (model b) t =
      map (\<lambda>c. equality_clause (db_column.name c) (get_field (model b) (field c))) (primary_keys t)"
    using assms(2) by (simp add: identity_clauses_def)
  show ?thesis
    using assms(3)
    by (simp add: build_eq [of getModel b t, OF assms(1)] whereClauses_after_build ids o_def
        query_equality_entries params_equality_entries)
qed

theorem primary_keys_are_the_identity_witness:
  "getMembership (model (Update membership False)) = Inr membership_table
   \<and> \<not> truthy (rowid (model (Update membership False)))
   \<and> whereClauses (Update membership False) = None
   \<and> (\<exists>q b'. build getMembership (Update membership False) = Inr (q, b')
        \<and> whereClauses b' = Some [ClauseEntry (equality_clause ''user_id'' (JNum 4)),
                                  ClauseEntry (equality_clause ''team_id'' (JNum 9))]
        \<and> query q = ''UPDATE membership SET user_id = (?), role = (?), team_id = (?)  WHERE user_id = (?) AND team_id = (?)''
        \<and> params q = [JNum 4, JStr ''admin'', JNum 9, JNum 4, JNum 9])"
  using primary_keys_are_the_identity [of getMembership "Update membership False" membership_table]
  by (simp add: more_defs Update_def QueryUpdate_def set_text_def primary_keys_def
      set_params_def set_list_def included_def get_field_def)

text \<open>
  Claim C8 fails after \<^verbatim>\<open>where([])\<close> or \<^verbatim>\<open>where({})\<close>: the caller added no clause, the model
  has no row identity and the table no primary key, yet the where group exists and is
  empty, and the text ends with the keyword \<^verbatim>\<open> WHERE\<close> and nothing after it.
\<close>

theorem empty_where_group_keyword:
  "whereClauses (update_where (Update person False) (ClauseArray [])) = Some []
   \<and> whereClauses (update_where (Update person False) (Mapping [])) = Some []
   \<and> map_sum id fst (build getPerson (update_where (Update person False) (ClauseArray []))) =
       Inr \<lparr>table = ''person'', type = ''UPDATE'', query = ''UPDATE person SET name = (?)  WHERE'',
            params = [JStr ''x'']\<rparr>
   \<and> map_sum id fst (build getPerson (update_where (Update person False) (Mapping []))) =
       Inr \<lparr>table = ''person'', type = ''UPDATE'', query = ''UPDATE person SET name = (?)  WHERE'',
            params = [JStr ''x'']\<rparr>
   \<and> sublist '' WHERE'' ''UPDATE person SET name = (?)  WHERE''"
  by (simp add: eval_defs example_defs sublist_Cons_right)

text \<open>
  Claim C9. When the metadata lookup fails for the model, \<^verbatim>\<open>build\<close> fails with the same
  error: the result is the error and holds no query, whatever the state of the builder.
\<close>

theorem build_propagates_lookup_failure:
  "getModel (model b) = Inl e \<Longrightarrow> build getModel b = Inl e"
  by (simp add: build_def)

theorem build_propagates_lookup_failure_witness:
  "getNothing (model (QueryUpdate todo False)) = Inl ''unregistered model''
   \<and> build getNothing (QueryUpdate todo False) = Inl ''unregistered model''"
  using build_propagates_lookup_failure [of getNothing "QueryUpdate todo False" "''unregistered model''"]
  by (simp add: getNothing_def)

text \<open>
  Claim C10. The constructor's \<^verbatim>\<open>partial\<close> argument is never read: a builder made with
  \<open>True\<close> and one made with \<open>False\<close> build the same query, and so do any two builders
  that differ in that field only, whatever clauses \<^verbatim>\<open>where\<close> has added.
\<close>

theorem partial_argument_is_never_read:
  "map_sum id fst (build getModel (QueryUpdate m True)) =
     map_sum id fst (build getModel (QueryUpdate m False))
   \<and> map_sum id fst (build getModel (b\<lparr>partial := p\<rparr>)) = map_sum id fst (build getModel b)"
proof -
  have *: "map_sum id fst (build getModel (c\<lparr>partial := q\<rparr>)) = map_sum id fst (build getModel c)"
    for c q
  proof (cases "getModel (model c)")
    case (Inl e)
    then show ?thesis by (simp add: build_def)
  next
    case (Inr t)
    then show ?thesis by (simp add: build_eq after_build_partial)
  qed
  have "QueryUpdate m True = (QueryUpdate m False)\<lparr>partial := True\<rparr>"
    by (simp add: QueryUpdate_def)
  with * show ?thesis by simp
qed

end
